theory Spec2Isabelle
  imports Main "HOL-Library.AList"
begin

section \<open>Tracking changes for denormalized fields (denormalized/tracker.py)\<close>

subsection \<open>Python values and exceptions\<close>

text \<open>
  The exceptions that \<^verbatim>\<open>track_changes\<close> and its helpers can raise. A call
  that raises is \<open>Inl e\<close>, a call that returns \<open>v\<close> is \<open>Inr v\<close>.
\<close>

datatype error =
  ObjectDoesNotExist | AttributeError | NameError | NotImplementedError | TypeError

text \<open>
  The value of an operand attribute of a child: a concrete number, or a
  \<^verbatim>\<open>CombinedExpression\<close> (such as \<^verbatim>\<open>F('amount') + 5\<close>) that the database has yet
  to evaluate. The expression carries the number that the column holds in the database,
  which is what \<^verbatim>\<open>refresh_from_db\<close> loads.
\<close>

datatype pyval = Number int | CombinedExpression int

text \<open>
  A parent row: its primary key and its numeric attributes (an attribute may hold
  \<^verbatim>\<open>None\<close>).
\<close>

record parent =
  pk :: nat
  attrs :: "(string \<times> int option) list"

text \<open>
  Reading a related-object attribute of a child gives the parent, gives \<^verbatim>\<open>None\<close>, or
  raises \<^verbatim>\<open>ObjectDoesNotExist\<close> (\<open>Dangling\<close>: the referenced row is gone).
\<close>

datatype related = Resolved "parent option" | Dangling

text \<open>
  A child instance: its related-object attributes, its operand attributes, the
  attribute \<^verbatim>\<open>_denormalized_previous_version\<close> (\<open>None\<close> when the instance has no such
  attribute), and whether the database holds a row for the instance (it holds none for an
  instance never saved or already deleted).
\<close>

datatype child =
  Child (relations: "(string \<times> related) list")
        (columns: "(string \<times> pyval) list")
        (previous_version: "child option")
        (in_database: bool)

text \<open>
  The aggregate of a tracker: \<^verbatim>\<open>Count\<close>, \<^verbatim>\<open>Sum\<close> or \<^verbatim>\<open>Min\<close>, the last two
  with \<^verbatim>\<open>source_expressions[0].name\<close>; \<open>Other\<close> is any aggregate class besides the
  three.
\<close>

datatype aggregate = Count | Sum_agg string | Min_agg string | Other

text \<open>
  The update of one parent: \<open>F_add f v\<close> is the expression \<^verbatim>\<open>F(f) + v\<close>, and
  \<^verbatim>\<open>IncrementalUpdates\<close> is the dictionary from field names to such expressions.
\<close>

datatype expression = F_add string pyval

type_synonym incremental_updates = "(string \<times> expression) list"

type_synonym entry = "parent \<times> incremental_updates"

subsection \<open>The tracker\<close>

record tracker =
  field :: string
  aggregate :: aggregate
  query :: "child \<Rightarrow> bool"
  callback :: "child \<Rightarrow> bool"
  foreign_key :: "string option"

text \<open>
  \<^verbatim>\<open>__init__(self, field, aggregate=Count('*'), query=Q(), callback=lambda obj: True,
  related_name=None)\<close>: an argument left out is \<open>None\<close> here and takes the default of
  the signature. The empty \<^verbatim>\<open>Q()\<close> matches every row.
\<close>

definition init ::
  "string \<Rightarrow> aggregate option \<Rightarrow> (child \<Rightarrow> bool) option \<Rightarrow> (child \<Rightarrow> bool) option
    \<Rightarrow> string option \<Rightarrow> tracker" where
  "init field_arg aggregate_arg query_arg callback_arg related_name =
     \<lparr>field = field_arg,
      aggregate = (case aggregate_arg of None \<Rightarrow> Count | Some a \<Rightarrow> a),
      query = (case query_arg of None \<Rightarrow> (\<lambda>obj. True) | Some q \<Rightarrow> q),
      callback = (case callback_arg of None \<Rightarrow> (\<lambda>obj. True) | Some c \<Rightarrow> c),
      foreign_key = related_name\<rparr>"

subsection \<open>Attribute access\<close>

text \<open>
  \<^verbatim>\<open>getattr(instance, self.foreign_key)\<close>. The name \<^verbatim>\<open>None\<close> is not a string
  (\<^verbatim>\<open>TypeError\<close>); a name the instance does not have is an \<^verbatim>\<open>AttributeError\<close>.
\<close>

definition getattr_related :: "child \<Rightarrow> string option \<Rightarrow> error + parent option" where
  "getattr_related inst name =
     (case name of
        None \<Rightarrow> Inl TypeError
      | Some n \<Rightarrow>
          (case map_of (relations inst) n of
             None \<Rightarrow> Inl AttributeError
           | Some Dangling \<Rightarrow> Inl ObjectDoesNotExist
           | Some (Resolved p) \<Rightarrow> Inr p))"

text \<open>\<^verbatim>\<open>getattr(instance, arg.name)\<close>.\<close>

definition getattr_column :: "child \<Rightarrow> string \<Rightarrow> error + pyval" where
  "getattr_column inst n =
     (case map_of (columns inst) n of
        None \<Rightarrow> Inl AttributeError
      | Some v \<Rightarrow> Inr v)"

text \<open>\<^verbatim>\<open>getattr(foreign_object, self.field)\<close>; \<^verbatim>\<open>None\<close> has no attributes.\<close>

definition getattr_parent :: "parent option \<Rightarrow> string \<Rightarrow> error + int option" where
  "getattr_parent foreign_object n =
     (case foreign_object of
        None \<Rightarrow> Inl AttributeError
      | Some p \<Rightarrow>
          (case map_of (attrs p) n of
             None \<Rightarrow> Inl AttributeError
           | Some v \<Rightarrow> Inr v))"

text \<open>
  \<^verbatim>\<open>instance.refresh_from_db(fields=(name,))\<close>, called on a column that holds a
  \<^verbatim>\<open>CombinedExpression\<close>. The call reads the row of the instance: without a row it
  raises \<^verbatim>\<open>DoesNotExist\<close> (an \<^verbatim>\<open>ObjectDoesNotExist\<close>), with one the column takes the
  number the database holds. The call mutates the instance; the model returns the
  refreshed instance.
\<close>

definition refresh_from_db :: "child \<Rightarrow> string \<Rightarrow> error + child" where
  "refresh_from_db inst n =
     (if \<not> in_database inst then Inl ObjectDoesNotExist
      else
        (case map_of (columns inst) n of
           Some (CombinedExpression c) \<Rightarrow>
             Inr (Child (relations inst)
                        (AList.update n (Number c) (columns inst))
                        (previous_version inst)
                        (in_database inst))
         | _ \<Rightarrow> Inr inst))"

subsection \<open>Python operators on these values\<close>

text \<open>
  \<^verbatim>\<open>min_value < value\<close>: defined between two numbers; \<^verbatim>\<open>None\<close> and expressions
  are not ordered (\<^verbatim>\<open>TypeError\<close>).
\<close>

definition py_lt :: "int option \<Rightarrow> pyval \<Rightarrow> error + bool" where
  "py_lt min_value v =
     (case (min_value, v) of
        (Some m, Number x) \<Rightarrow> Inr (m < x)
      | _ \<Rightarrow> Inl TypeError)"

text \<open>\<^verbatim>\<open>min(min_value, value) - min_value\<close> for a stored minimum that is a number.\<close>

definition py_min_minus :: "int \<Rightarrow> pyval \<Rightarrow> error + pyval" where
  "py_min_minus m v =
     (case v of
        Number x \<Rightarrow> Inr (Number (min m x - m))
      | CombinedExpression c \<Rightarrow> Inl TypeError)"

text \<open>
  \<^verbatim>\<open>delta * sign\<close> and \<^verbatim>\<open>delta - old_delta\<close>: arithmetic on an expression builds an
  expression (of the value computed here).
\<close>

definition py_mul :: "pyval \<Rightarrow> int \<Rightarrow> pyval" where
  "py_mul delta sign =
     (case delta of
        Number d \<Rightarrow> Number (d * sign)
      | CombinedExpression c \<Rightarrow> CombinedExpression (c * sign))"

definition py_sub :: "pyval \<Rightarrow> pyval \<Rightarrow> pyval" where
  "py_sub a b =
     (case (a, b) of
        (Number x, Number y) \<Rightarrow> Number (x - y)
      | (Number x, CombinedExpression y) \<Rightarrow> CombinedExpression (x - y)
      | (CombinedExpression x, Number y) \<Rightarrow> CombinedExpression (x - y)
      | (CombinedExpression x, CombinedExpression y) \<Rightarrow> CombinedExpression (x - y))"

text \<open>
  \<^verbatim>\<open>foreign_object == old_foreign_object\<close>: two saved rows of the parent model are
  equal when their primary keys are; \<^verbatim>\<open>None\<close> equals only \<^verbatim>\<open>None\<close>.
  \<^verbatim>\<open>!=\<close> is the negation.
\<close>

definition model_eq :: "parent option \<Rightarrow> parent option \<Rightarrow> bool" where
  "model_eq a b =
     (case (a, b) of
        (None, None) \<Rightarrow> True
      | (Some p, Some q) \<Rightarrow> pk p = pk q
      | _ \<Rightarrow> False)"

text \<open>The truth value of an optional flag: \<^verbatim>\<open>None\<close> and \<^verbatim>\<open>False\<close> are falsy.\<close>

definition truthy :: "bool option \<Rightarrow> bool" where
  "truthy b = (b = Some True)"

text \<open>\<^verbatim>\<open>filter(None, changed)\<close> keeps the entries and drops every \<^verbatim>\<open>None\<close>.\<close>

definition filter_None :: "entry option list \<Rightarrow> entry option list" where
  "filter_None changed = filter (\<lambda>x. x \<noteq> None) changed"

subsection \<open>The methods\<close>

text \<open>
  \<^verbatim>\<open>_get_full_aggregate\<close>: "Computes full aggregate excluding passed instance"; its
  body raises \<^verbatim>\<open>NotImplementedError\<close>.
\<close>

definition get_full_aggregate :: "tracker \<Rightarrow> child \<Rightarrow> error + pyval" where
  "get_full_aggregate self inst = Inl NotImplementedError"

text \<open>
  \<^verbatim>\<open>_get_delta(self, instance, deleted=False)\<close>. The three branches on \<open>deleted\<close>
  are \<^verbatim>\<open>if deleted\<close>, \<^verbatim>\<open>elif deleted is False\<close> and \<^verbatim>\<open>else\<close>.
\<close>

definition get_delta :: "tracker \<Rightarrow> child \<Rightarrow> bool option \<Rightarrow> error + pyval" where
  "get_delta self inst deleted =
     (case aggregate self of
        Count \<Rightarrow> Inr (Number 1)
      | Sum_agg arg \<Rightarrow>
          (case getattr_column inst arg of
             Inl e \<Rightarrow> Inl e
           | Inr (CombinedExpression c) \<Rightarrow>
               (case refresh_from_db inst arg of
                  Inl e \<Rightarrow> Inl e
                | Inr refreshed \<Rightarrow> getattr_column refreshed arg)
           | Inr (Number x) \<Rightarrow> Inr (Number x))
      | Min_agg arg \<Rightarrow>
          (case getattr_column inst arg of
             Inl e \<Rightarrow> Inl e
           | Inr v \<Rightarrow>
          (case getattr_related inst (foreign_key self) of
             Inl e \<Rightarrow> Inl e
           | Inr foreign_object \<Rightarrow>
          (case getattr_parent foreign_object (field self) of
             Inl e \<Rightarrow> Inl e
           | Inr min_value \<Rightarrow>
               if truthy deleted then
                 (case py_lt min_value v of
                    Inl e \<Rightarrow> Inl e
                  | Inr non_minimal \<Rightarrow>
                      if non_minimal then Inr (Number 0)
                      else get_full_aggregate self inst)
               else if deleted = Some False then
                 (case min_value of
                    None \<Rightarrow> Inr v
                  | Some m \<Rightarrow> py_min_minus m v)
               else Inr (Number 0))))
      | Other \<Rightarrow> Inl NotImplementedError)"

text \<open>\<^verbatim>\<open>_update_value(self, foreign_object, delta, sign=1)\<close>. A model row is truthy.\<close>

definition update_value :: "tracker \<Rightarrow> parent option \<Rightarrow> pyval \<Rightarrow> int \<Rightarrow> entry option" where
  "update_value self foreign_object delta sign =
     (if delta = Number 0 \<or> foreign_object = None then None
      else
        (case foreign_object of
           None \<Rightarrow> None
         | Some p \<Rightarrow> Some (p, [(field self, F_add (field self) (py_mul delta sign))])))"

text \<open>
  The name \<^verbatim>\<open>old_delta\<close> is read at lines 51 and 58 of \<^verbatim>\<open>track_changes\<close>. It is
  bound nowhere: not in the function, not in the module, not among the builtins. Reading
  it raises \<^verbatim>\<open>NameError\<close>.
\<close>

definition old_delta :: "error + pyval" where
  "old_delta = Inl NameError"

text \<open>
  \<^verbatim>\<open>track_changes(self, instance=None, created=None, deleted=None)\<close>. The create and
  delete branches return a one-element tuple holding what \<^verbatim>\<open>_update_value\<close> returned
  (an entry or \<^verbatim>\<open>None\<close>) or the empty list; the update branch returns
  \<^verbatim>\<open>filter(None, changed)\<close>. \<^verbatim>\<open>_get_delta\<close> is called with \<open>deleted\<close> left at its
  default \<^verbatim>\<open>False\<close>. \<open>sign\<close> is the difference of two booleans, as an integer.
\<close>

definition track_changes ::
  "tracker \<Rightarrow> child \<Rightarrow> bool option \<Rightarrow> bool option \<Rightarrow> error + entry option list" where
  "track_changes self inst created deleted =
     (case (case getattr_related inst (foreign_key self) of
              Inl ObjectDoesNotExist \<Rightarrow> Inr None
            | r \<Rightarrow> r) of
        Inl e \<Rightarrow> Inl e
      | Inr foreign_object \<Rightarrow>
     (let is_suitable = callback self inst in
     (case get_delta self inst (Some False) of
        Inl e \<Rightarrow> Inl e
      | Inr delta \<Rightarrow>
          if truthy created then
            (if is_suitable then Inr [update_value self foreign_object delta 1]
             else Inr [])
          else if truthy deleted then
            (if is_suitable then Inr [update_value self foreign_object delta (- 1)]
             else Inr [])
          else
     (case previous_version inst of
        None \<Rightarrow> Inl AttributeError
      | Some old_instance \<Rightarrow>
     (let old_suitable = callback self old_instance in
     (case getattr_related old_instance (foreign_key self) of
        Inl e \<Rightarrow> Inl e
      | Inr old_foreign_object \<Rightarrow>
     (let sign = of_bool is_suitable - of_bool old_suitable in
          if model_eq foreign_object old_foreign_object \<and> sign \<noteq> 0 then
            Inr (filter_None [update_value self foreign_object delta sign])
          else if \<not> model_eq foreign_object old_foreign_object then
            (case (if old_suitable then
                     (case old_delta of
                        Inl e \<Rightarrow> Inl e
                      | Inr od \<Rightarrow> Inr [update_value self old_foreign_object od (- 1)])
                   else Inr []) of
               Inl e \<Rightarrow> Inl e
             | Inr changed \<Rightarrow>
                 Inr (filter_None
                       (changed @
                        (if is_suitable then [update_value self foreign_object delta 1]
                         else []))))
          else
            (case old_delta of
               Inl e \<Rightarrow> Inl e
             | Inr od \<Rightarrow>
                 Inr (filter_None
                       [update_value self foreign_object (py_sub delta od) 1])))))))))"

subsection \<open>The applier and the ground truth\<close>

text \<open>
  The Aggregate Applier and the recomputed aggregate are not part of \<^verbatim>\<open>tracker.py\<close>:
  the definitions of this subsection follow the words of the specification.
\<close>

text \<open>
  Modelled from the spec: the parents' stored fields, on which the Aggregate Applier (an
  external collaborator) works. A store gives the number held by each field of each
  parent, the parent named by its primary key.
\<close>

type_synonym store = "nat \<times> string \<Rightarrow> int"

text \<open>
  Modelled from the spec: the number a delta stands for when the Applier adds it ("a
  signed numeric value"); an expression counts as the number it evaluates to.
\<close>

definition value_of :: "pyval \<Rightarrow> int" where
  "value_of v = (case v of Number d \<Rightarrow> d | CombinedExpression c \<Rightarrow> c)"

text \<open>
  Modelled from the spec: one step of the Aggregate Applier, "\<open>field += delta\<close>". The
  update \<^verbatim>\<open>{f: F(g) + v}\<close> of the parent with key \<open>k\<close> writes the current value of
  \<open>g\<close> plus \<open>v\<close> into \<open>f\<close>.
\<close>

definition apply_update :: "store \<Rightarrow> nat \<Rightarrow> string \<times> expression \<Rightarrow> store" where
  "apply_update s k u = (case u of (f, F_add g v) \<Rightarrow> s((k, f) := s (k, g) + value_of v))"

text \<open>
  Modelled from the spec: the Aggregate Applier on one element of a plan. An entry
  updates its parent; \<^verbatim>\<open>None\<close> (no entry) changes nothing.
\<close>

definition apply_entry :: "store \<Rightarrow> entry option \<Rightarrow> store" where
  "apply_entry s e =
     (case e of
        None \<Rightarrow> s
      | Some (p, updates) \<Rightarrow> fold (\<lambda>u s'. apply_update s' (pk p) u) updates s)"

text \<open>
  Modelled from the spec: the Aggregate Applier, "given a plan, atomically applies
  \<open>field += delta\<close> per parent", the entries taken in the order of the plan.
\<close>

definition apply_plan :: "store \<Rightarrow> entry option list \<Rightarrow> store" where
  "apply_plan s plan = fold (\<lambda>e s'. apply_entry s' e) plan s"

text \<open>
  Modelled from the spec: the qualifying children of the parent with key \<open>k\<close>, "children
  where membership holds and parent matches".
\<close>

definition qualifying :: "tracker \<Rightarrow> nat \<Rightarrow> child list \<Rightarrow> child list" where
  "qualifying self k children =
     filter (\<lambda>c. callback self c \<and>
                 (case getattr_related c (foreign_key self) of
                    Inr (Some q) \<Rightarrow> pk q = k
                  | _ \<Rightarrow> False)) children"

text \<open>
  Modelled from the spec: the operand of a child, the number in its operand column (0
  for a child without the column).
\<close>

definition operand :: "string \<Rightarrow> child \<Rightarrow> int" where
  "operand arg c = (case map_of (columns c) arg of Some v \<Rightarrow> value_of v | None \<Rightarrow> 0)"

text \<open>
  Modelled from the spec: the ground-truth aggregate of a parent over a list of children.
  "Count: count of children where membership holds and parent matches; Sum: sum of operand
  over such children; Min: minimum operand over such children, or no value if none". No
  value (\<open>None\<close>) also for an aggregate kind the spec does not name.
\<close>

definition ground_truth :: "tracker \<Rightarrow> nat \<Rightarrow> child list \<Rightarrow> int option" where
  "ground_truth self k children =
     (case aggregate self of
        Count \<Rightarrow> Some (int (length (qualifying self k children)))
      | Sum_agg arg \<Rightarrow> Some (sum_list (map (operand arg) (qualifying self k children)))
      | Min_agg arg \<Rightarrow>
          (case map (operand arg) (qualifying self k children) of
             [] \<Rightarrow> None
           | x # xs \<Rightarrow> Some (fold min xs x))
      | Other \<Rightarrow> None)"

subsection \<open>Concrete trackers, parents and children\<close>

text \<open>
  Three trackers on the children of an order, built by \<^verbatim>\<open>__init__\<close> with the default
  query and callback: the number of items, the sum of their amounts, the least amount.
\<close>

definition count_tracker :: tracker where
  "count_tracker = init ''item_count'' None None None (Some ''order'')"

definition sum_tracker :: tracker where
  "sum_tracker = init ''total'' (Some (Sum_agg ''amount'')) None None (Some ''order'')"

definition min_tracker :: tracker where
  "min_tracker = init ''min_amount'' (Some (Min_agg ''amount'')) None None (Some ''order'')"

text \<open>
  A tracker given the filter \<^verbatim>\<open>Q(status=1)\<close> (1 for "active") and no callback.
\<close>

definition active_tracker :: tracker where
  "active_tracker =
     init ''item_count'' None
       (Some (\<lambda>c. map_of (columns c) ''status'' = Some (Number 1))) None (Some ''order'')"

text \<open>
  Two orders. The first holds the count 3, the total 15 and the minimum 3 of its items
  (amounts 3, 5 and 7).
\<close>

definition parent_A :: parent where
  "parent_A =
     \<lparr>pk = 1, attrs = [(''item_count'', Some 3), (''total'', Some 15), (''min_amount'', Some 3)]\<rparr>"

definition parent_B :: parent where
  "parent_B =
     \<lparr>pk = 2, attrs = [(''item_count'', Some 0), (''total'', Some 0), (''min_amount'', None)]\<rparr>"

definition stored_A :: store where
  "stored_A = (\<lambda>(k, f). if f = ''item_count'' then 3 else if f = ''total'' then 15 else 3)"

text \<open>An item of the first order with the given amount, carrying no previous version.\<close>

definition item :: "int \<Rightarrow> child" where
  "item v = Child [(''order'', Resolved (Some parent_A))] [(''amount'', Number v)] None True"

text \<open>An item of the first order whose amount was \<open>old\<close> and is now \<open>new\<close>.\<close>

definition changed_item :: "int \<Rightarrow> int \<Rightarrow> child" where
  "changed_item old new =
     Child [(''order'', Resolved (Some parent_A))] [(''amount'', Number new)] (Some (item old))
       True"

text \<open>An item moved from the first order to the second, its amount unchanged.\<close>

definition moved_item :: "int \<Rightarrow> child" where
  "moved_item v =
     Child [(''order'', Resolved (Some parent_B))] [(''amount'', Number v)] (Some (item v))
       True"

text \<open>An item whose order is already deleted: reading \<^verbatim>\<open>order\<close> raises.\<close>

definition orphan :: child where
  "orphan = Child [(''order'', Dangling)] [(''amount'', Number 3)] None True"

text \<open>An inactive item (status 0) of the first order.\<close>

definition inactive_item :: child where
  "inactive_item =
     Child [(''order'', Resolved (Some parent_A))] [(''amount'', Number 3), (''status'', Number 0)]
       None True"

text \<open>
  A tracker given the callback "status is 1" as its membership override, and the inactive
  item after its status was set to 1.
\<close>

definition override_tracker :: tracker where
  "override_tracker =
     init ''item_count'' None None
       (Some (\<lambda>c. map_of (columns c) ''status'' = Some (Number 1))) (Some ''order'')"

definition activated_item :: child where
  "activated_item =
     Child [(''order'', Resolved (Some parent_A))] [(''amount'', Number 3), (''status'', Number 1)]
       (Some inactive_item) True"

text \<open>
  An item whose amount was assigned the expression \<^verbatim>\<open>F('amount') + 5\<close>, worth 8 in the
  database, with a row in the database or without one.
\<close>

definition expression_item :: "bool \<Rightarrow> child" where
  "expression_item saved =
     Child [(''order'', Resolved (Some parent_A))] [(''amount'', CombinedExpression 8)] None
       saved"

section \<open>Properties\<close>

lemmas model_defs =
  track_changes_def get_delta_def update_value_def get_full_aggregate_def old_delta_def
  getattr_related_def getattr_column_def getattr_parent_def refresh_from_db_def
  py_lt_def py_min_minus_def py_mul_def py_sub_def model_eq_def truthy_def filter_None_def
  init_def

lemmas scenario_defs =
  count_tracker_def sum_tracker_def min_tracker_def active_tracker_def parent_A_def
  parent_B_def stored_A_def item_def changed_item_def moved_item_def orphan_def
  inactive_item_def override_tracker_def activated_item_def expression_item_def

lemmas applier_defs =
  apply_plan_def apply_entry_def apply_update_def value_of_def ground_truth_def
  qualifying_def operand_def

subsection \<open>What the helpers do\<close>

text \<open>\<^verbatim>\<open>_update_value\<close> returns \<^verbatim>\<open>None\<close> exactly for a zero delta or an absent parent.\<close>

lemma update_value_None_iff:
  "update_value self foreign_object delta sign = None
     \<longleftrightarrow> delta = Number 0 \<or> foreign_object = None"
  by (cases foreign_object) (simp_all add: update_value_def)

text \<open>
  The delta of a Sum tracker is a number, unless the operand is missing or the refresh
  finds no row.
\<close>

lemma get_delta_Sum_cases:
  assumes "aggregate self = Sum_agg arg"
  shows "(\<exists>x. get_delta self inst deleted = Inr (Number x))
       \<or> get_delta self inst deleted = Inl AttributeError
       \<or> get_delta self inst deleted = Inl ObjectDoesNotExist"
proof (cases "map_of (columns inst) arg")
  case None
  with assms show ?thesis
    by (simp add: get_delta_def getattr_column_def)
next
  case (Some v)
  with assms show ?thesis
    by (cases v) (simp_all add: get_delta_def getattr_column_def refresh_from_db_def
        update_conv')
qed

lemma sum_refresh_reads_row:
  "get_delta sum_tracker (expression_item False) (Some False) = Inl ObjectDoesNotExist
   \<and> get_delta sum_tracker (expression_item True) (Some False) = Inr (Number 8)"
  by (simp add: model_defs scenario_defs)




lemma update_same_parent_same_membership:
  assumes "\<not> truthy created" and "\<not> truthy deleted"
    and "previous_version inst = Some old_instance"
    and "getattr_related inst (foreign_key self) = Inr foreign_object"
    and "getattr_related old_instance (foreign_key self) = Inr old_foreign_object"
    and "get_delta self inst (Some False) = Inr delta"
    and "model_eq foreign_object old_foreign_object"
    and "callback self inst = callback self old_instance"
  shows "track_changes self inst created deleted = Inl NameError"
  using assms by (simp add: track_changes_def old_delta_def)

lemma update_moving_qualifying_child:
  assumes "\<not> truthy created" and "\<not> truthy deleted"
    and "previous_version inst = Some old_instance"
    and "getattr_related inst (foreign_key self) = Inr foreign_object"
    and "getattr_related old_instance (foreign_key self) = Inr old_foreign_object"
    and "get_delta self inst (Some False) = Inr delta"
    and "\<not> model_eq foreign_object old_foreign_object"
    and "callback self old_instance"
  shows "track_changes self inst created deleted = Inl NameError"
  using assms by (simp add: track_changes_def old_delta_def)

subsection \<open>The claims\<close>

text \<open>
  C1. Claimed: after each plan of \<^verbatim>\<open>track_changes\<close> is applied, every parent's stored
  field equals the aggregate recomputed over its qualifying children. Evaluated on the
  first order, whose items have the amounts 3, 5 and 7 and whose stored minimum 3 is the
  true one: deleting the item of amount 3 gives a plan with no entry, applying it leaves
  the stored minimum at 3, and the minimum over the remaining items is 5.
\<close>

theorem invariant_broken_by_min_delete:
  "ground_truth min_tracker 1 [item 3, item 5, item 7] = Some (stored_A (1, ''min_amount''))
   \<and> track_changes min_tracker (item 3) None (Some True) = Inr [None]
   \<and> apply_plan stored_A [None] (1, ''min_amount'') = 3
   \<and> ground_truth min_tracker 1 [item 5, item 7] = Some 5"
  by (simp add: model_defs scenario_defs applier_defs)

text \<open>
  C2. Claimed: for a Min tracker, deleting a qualifying child whose operand is at most the
  stored minimum yields a full recompute, and deleting one above it yields delta 0.
  Evaluated with stored minimum 3: \<^verbatim>\<open>track_changes\<close> answers both deletions (operand 3
  and operand 5) with a plan holding no entry, because it calls \<^verbatim>\<open>_get_delta\<close> without
  \<open>deleted\<close>; \<^verbatim>\<open>_get_delta\<close> called with \<open>deleted\<close> true tells the two apart, and
  its full recompute is the \<^verbatim>\<open>NotImplementedError\<close> of \<^verbatim>\<open>_get_full_aggregate\<close>.
\<close>

theorem min_delete_of_minimum_no_recompute:
  "track_changes min_tracker (item 3) None (Some True) = Inr [None]
   \<and> track_changes min_tracker (item 5) None (Some True) = Inr [None]
   \<and> get_delta min_tracker (item 3) (Some True) = Inl NotImplementedError
   \<and> get_delta min_tracker (item 5) (Some True) = Inr (Number 0)"
  by (simp add: model_defs scenario_defs)

text \<open>
  C3. Claimed: for a Sum tracker, creating a child of amount 10 gives the entry +10,
  updating its amount from 10 to 25 gives the entry +15, deleting it gives the entry -25.
  Evaluated: the create and the delete give these entries; the update raises
  \<^verbatim>\<open>NameError\<close>.
\<close>

theorem sum_scenario_update_raises:
  "track_changes sum_tracker (item 10) (Some True) None =
     Inr [Some (parent_A, [(''total'', F_add ''total'' (Number 10))])]
   \<and> track_changes sum_tracker (changed_item 10 25) None None = Inl NameError
   \<and> track_changes sum_tracker (changed_item 10 25) None (Some True) =
     Inr [Some (parent_A, [(''total'', F_add ''total'' (Number (- 25)))])]"
  by (simp add: model_defs scenario_defs)

text \<open>
  C4. Claimed: an update that moves a child which qualifies before and after from one
  parent to another gives two entries, the removal from the old parent before the
  addition to the new one. Evaluated for a Count tracker and an item moved from the first
  order to the second: the call raises \<^verbatim>\<open>NameError\<close>.
\<close>

theorem reparenting_raises:
  "track_changes count_tracker (moved_item 3) None None = Inl NameError"
  by (simp add: model_defs scenario_defs)

text \<open>
  C5. Claimed: no entry with a zero delta or an absent parent is in the plan, and an
  update whose before and after snapshots agree on parent, membership and operand gives
  the empty plan. Evaluated for an update that changes nothing, under each of the three
  trackers: the call raises \<^verbatim>\<open>NameError\<close>.
\<close>

theorem unchanged_update_raises:
  "track_changes count_tracker (changed_item 5 5) None None = Inl NameError
   \<and> track_changes sum_tracker (changed_item 5 5) None None = Inl NameError
   \<and> track_changes min_tracker (changed_item 5 5) None None = Inl NameError"
  by (simp add: model_defs scenario_defs)

text \<open>
  C6. Claimed: for every event and every aggregate, a parent reference that cannot be
  resolved is treated as no parent, and the call returns without raising. Evaluated for
  the deletion of an item whose order is gone: a Count tracker returns a plan with no
  entry, a Min tracker raises \<^verbatim>\<open>ObjectDoesNotExist\<close>.
\<close>

theorem min_unresolved_parent_raises:
  "track_changes count_tracker orphan None (Some True) = Inr [None]
   \<and> track_changes min_tracker orphan None (Some True) = Inl ObjectDoesNotExist"
  by (simp add: model_defs scenario_defs)

text \<open>
  C7. Claimed: for a Min tracker, an update that changes the operand and leaves parent and
  membership alone is a removal of the old value and an addition of the new one, and
  yields a full recompute when the old value is at most the stored minimum. Evaluated at
  the update of an item of the first order from 3 (the stored minimum) to 5, and from 7 to
  5: the call raises \<^verbatim>\<open>NameError\<close>.
\<close>

theorem min_operand_update_raises:
  "track_changes min_tracker (changed_item 3 5) None None = Inl NameError
   \<and> track_changes min_tracker (changed_item 7 5) None None = Inl NameError"
  by (simp add: model_defs scenario_defs)




text \<open>
  C9. For a Count tracker and a qualifying child whose parent resolves, the create event
  gives the single entry +1 on that parent and the delete event of the same child the
  single entry -1 on it; applying the first plan and then the second leaves every stored
  field as it was.
\<close>

theorem count_create_then_delete:
  assumes "aggregate self = Count" and "callback self inst"
    and "getattr_related inst (foreign_key self) = Inr (Some p)"
    and "truthy created" and "\<not> truthy created'" and "truthy deleted'"
  shows "track_changes self inst created deleted =
           Inr [Some (p, [(field self, F_add (field self) (Number 1))])]
       \<and> track_changes self inst created' deleted' =
           Inr [Some (p, [(field self, F_add (field self) (Number (- 1)))])]
       \<and> apply_plan
            (apply_plan s [Some (p, [(field self, F_add (field self) (Number 1))])])
            [Some (p, [(field self, F_add (field self) (Number (- 1)))])] = s"
proof -
  have delta: "get_delta self inst (Some False) = Inr (Number 1)"
    using assms(1) by (simp add: get_delta_def)
  have create: "track_changes self inst created deleted =
      Inr [Some (p, [(field self, F_add (field self) (Number 1))])]"
    using assms(2,3,4) delta
    by (simp add: track_changes_def update_value_def py_mul_def)
  have delete: "track_changes self inst created' deleted' =
      Inr [Some (p, [(field self, F_add (field self) (Number (- 1)))])]"
    using assms(2,3,5,6) delta
    by (simp add: track_changes_def update_value_def py_mul_def)
  have restore: "apply_plan
      (apply_plan s [Some (p, [(field self, F_add (field self) (Number 1))])])
      [Some (p, [(field self, F_add (field self) (Number (- 1)))])] = s"
    by (simp add: apply_plan_def apply_entry_def apply_update_def value_of_def)
  from create delete restore show ?thesis
    by blast
qed

theorem count_create_then_delete_witness:
  "aggregate count_tracker = Count
   \<and> callback count_tracker (item 3)
   \<and> getattr_related (item 3) (foreign_key count_tracker) = Inr (Some parent_A)
   \<and> track_changes count_tracker (item 3) (Some True) None =
       Inr [Some (parent_A, [(''item_count'', F_add ''item_count'' (Number 1))])]
   \<and> track_changes count_tracker (item 3) None (Some True) =
       Inr [Some (parent_A, [(''item_count'', F_add ''item_count'' (Number (- 1)))])]
   \<and> apply_plan
        (apply_plan stored_A [Some (parent_A, [(''item_count'', F_add ''item_count'' (Number 1))])])
        [Some (parent_A, [(''item_count'', F_add ''item_count'' (Number (- 1)))])] = stored_A"
proof -
  have kind: "aggregate count_tracker = Count"
    and member: "callback count_tracker (item 3)"
    by (simp_all add: count_tracker_def init_def)
  have name: "field count_tracker = ''item_count''"
    by (simp add: count_tracker_def init_def)
  have order: "getattr_related (item 3) (foreign_key count_tracker) = Inr (Some parent_A)"
    by (simp add: model_defs scenario_defs)
  have flags: "truthy (Some True)" "\<not> truthy None"
    by (simp_all add: truthy_def)
  note plans =
    count_create_then_delete
      [OF kind member order flags(1) flags(2) flags(1), where deleted = None and s = stored_A]
  from kind member order plans [unfolded name] show ?thesis
    by blast
qed

text \<open>
  C10. Claimed: on an update event the before snapshot is read from the attribute
  \<^verbatim>\<open>_denormalized_previous_version\<close> of the instance, and when the instance lacks
  it the call raises \<^verbatim>\<open>AttributeError\<close> and returns no plan. At a Min tracker and an
  item without previous version whose order is gone, the error raised is
  \<^verbatim>\<open>ObjectDoesNotExist\<close>: the delta is computed, and its reads are made, before the
  attribute is looked up. An aggregate that is not supported raises
  \<^verbatim>\<open>NotImplementedError\<close> there.
\<close>

theorem missing_previous_version_counterexample:
  "previous_version orphan = None
   \<and> track_changes min_tracker orphan None None = Inl ObjectDoesNotExist
   \<and> previous_version (item 3) = None
   \<and> track_changes (init ''item_count'' (Some Other) None None (Some ''order'')) (item 3)
        None None = Inl NotImplementedError"
  by (simp add: model_defs scenario_defs)

text \<open>
  C10, amended. On an update event whose instance lacks the attribute the call returns no
  plan and raises. The error is \<^verbatim>\<open>AttributeError\<close> whenever the tracker has a foreign
  key name and the delta computation before the lookup returns, which it always does for
  a Count tracker; otherwise it is the error raised before the lookup.
\<close>

theorem update_without_previous_version:
  assumes "\<not> truthy created" and "\<not> truthy deleted"
    and "previous_version inst = None"
  shows "(\<exists>e. track_changes self inst created deleted = Inl e)
       \<and> (foreign_key self \<noteq> None \<and> (\<exists>delta. get_delta self inst (Some False) = Inr delta)
            \<longrightarrow> track_changes self inst created deleted = Inl AttributeError)
       \<and> (foreign_key self \<noteq> None \<and> aggregate self = Count
            \<longrightarrow> track_changes self inst created deleted = Inl AttributeError)"
proof -
  have raises: "\<exists>e. track_changes self inst created deleted = Inl e"
    using assms
    by (auto simp add: track_changes_def Let_def split: sum.splits error.splits)
  have after_delta: "track_changes self inst created deleted = Inl AttributeError"
    if "foreign_key self \<noteq> None" and "get_delta self inst (Some False) = Inr delta" for delta
    using assms that
    by (auto simp add: track_changes_def getattr_related_def Let_def
        split: sum.splits error.splits option.splits related.splits)
  have count: "track_changes self inst created deleted = Inl AttributeError"
    if name: "foreign_key self \<noteq> None" and kind: "aggregate self = Count"
  proof -
    from kind have "get_delta self inst (Some False) = Inr (Number 1)"
      by (simp add: get_delta_def)
    with name show ?thesis by (rule after_delta)
  qed
  from raises after_delta count show ?thesis by blast
qed

theorem update_without_previous_version_witness:
  "\<not> truthy None \<and> previous_version (item 10) = None
   \<and> foreign_key sum_tracker \<noteq> None
   \<and> aggregate sum_tracker = Sum_agg ''amount''
   \<and> track_changes sum_tracker (item 10) None None = Inl AttributeError"
proof -
  have flag: "\<not> truthy None"
    by (simp add: truthy_def)
  have bare: "previous_version (item 10) = None"
    by (simp add: item_def)
  have name: "foreign_key sum_tracker \<noteq> None"
    and kind: "aggregate sum_tracker = Sum_agg ''amount''"
    by (simp_all add: sum_tracker_def init_def)
  have delta: "get_delta sum_tracker (item 10) (Some False) = Inr (Number 10)"
    by (simp add: model_defs scenario_defs)
  have "track_changes sum_tracker (item 10) None None = Inl AttributeError"
    using update_without_previous_version [OF flag flag bare, of sum_tracker] name delta
    by blast
  with flag bare name kind show ?thesis
    by blast
qed

end
